theory Spec2Isabelle
  imports Main "HOL-Library.AList"
begin

section \<open>JavaScript values used by \<^verbatim>\<open>red/runtime-api/flows.js\<close>\<close>

text \<open>
  The module compares revisions with \<^verbatim>\<open>!==\<close>, tests error codes with \<^verbatim>\<open>===\<close>, defaults
  values with \<^verbatim>\<open>||\<close> and tests credentials with \<^verbatim>\<open>!= null\<close>. These operators tell the
  primitive values of JavaScript apart, so the model keeps them apart. A number is an
  integer or NaN: no branch of the module distinguishes other doubles from a non-zero
  integer. \<open>JBuiltin n\<close> is the value \<^verbatim>\<open>Object.prototype\<close> holds under the name \<open>n\<close>: a
  built-in function, and under \<^verbatim>\<open>__proto__\<close> the prototype object itself. The properties
  of the objects the module handles are data: apart from these inherited values they are
  primitive.
\<close>

datatype jsval = JUndefined | JNull | JBool bool | JNum int | JNaN | JStr string | JBuiltin string

text \<open>ToBoolean: the falsy values are undefined, null, false, 0, NaN and the empty string;
  functions and objects are truthy.\<close>

fun truthy :: "jsval \<Rightarrow> bool" where
  "truthy JUndefined = False"
| "truthy JNull = False"
| "truthy (JBool b) = b"
| "truthy (JNum n) = (n \<noteq> 0)"
| "truthy JNaN = False"
| "truthy (JStr s) = (s \<noteq> [])"
| "truthy (JBuiltin n) = True"

text \<open>\<^verbatim>\<open>a || b\<close>\<close>

definition js_or :: "jsval \<Rightarrow> jsval \<Rightarrow> jsval" where
  "js_or a b = (if truthy a then a else b)"

text \<open>\<^verbatim>\<open>a === b\<close>: equal primitive values of the same type or the same object, and NaN
  equals nothing.\<close>

definition strict_eq :: "jsval \<Rightarrow> jsval \<Rightarrow> bool" where
  "strict_eq a b = (a = b \<and> a \<noteq> JNaN)"

text \<open>\<^verbatim>\<open>v != null\<close>: loose inequality with null holds for all but null and undefined.\<close>

definition not_nullish :: "jsval \<Rightarrow> bool" where
  "not_nullish v = (v \<noteq> JUndefined \<and> v \<noteq> JNull)"

text \<open>
  \<^verbatim>\<open>v == "password"\<close>: a string equals it when it is that string; a number or a boolean
  is compared with ToNumber("password"), which is NaN; null and undefined equal only each
  other; a built-in of \<^verbatim>\<open>Object.prototype\<close> is converted to a string that is not
  "password".
\<close>

definition is_password :: "jsval \<Rightarrow> bool" where
  "is_password v = (v = JStr ''password'')"

text \<open>
  An ordinary object is the list of its own enumerable properties, in the order a
  \<^verbatim>\<open>for ... in\<close> loop visits them; it inherits from \<^verbatim>\<open>Object.prototype\<close>, whose
  properties are not enumerable. The objects the store returns and the objects the module
  creates are ordinary.
\<close>

type_synonym obj = "(string \<times> jsval) list"

text \<open>The names of the properties of \<^verbatim>\<open>Object.prototype\<close>.\<close>

definition object_prototype :: "string list" where
  "object_prototype =
     [''constructor'', ''__defineGetter__'', ''__defineSetter__'', ''hasOwnProperty'',
      ''__lookupGetter__'', ''__lookupSetter__'', ''isPrototypeOf'', ''propertyIsEnumerable'',
      ''toString'', ''valueOf'', ''__proto__'', ''toLocaleString'']"

text \<open>Whether an object has an own property of that name.\<close>

definition has_own :: "(string \<times> 'a) list \<Rightarrow> string \<Rightarrow> bool" where
  "has_own ob k = (map_of ob k \<noteq> None)"

text \<open>
  \<^verbatim>\<open>ob[k]\<close>: the own property, else the property inherited from \<^verbatim>\<open>Object.prototype\<close>,
  else undefined.
\<close>

definition get_prop :: "obj \<Rightarrow> string \<Rightarrow> jsval" where
  "get_prop ob k =
     (case map_of ob k of
        Some v \<Rightarrow> v
      | None \<Rightarrow> if k \<in> set object_prototype then JBuiltin k else JUndefined)"

text \<open>
  \<^verbatim>\<open>ob[k] = v\<close> on an ordinary object: the own property is replaced in place or appended.
  The name \<^verbatim>\<open>__proto__\<close> is the exception: the assignment runs the setter inherited from
  \<^verbatim>\<open>Object.prototype\<close>, which creates no own property. The result lists the own
  properties.
\<close>

definition set_prop :: "obj \<Rightarrow> string \<Rightarrow> jsval \<Rightarrow> obj" where
  "set_prop ob k v = (if k = ''__proto__'' then ob else AList.update k v ob)"

section \<open>Errors, promises and the effects of a call\<close>

text \<open>
  An Error object, with the fields the module reads or writes. \<^verbatim>\<open>new Error()\<close> has
  an empty message and neither code nor status.
\<close>

record js_error =
  err_name :: string
  err_message :: string
  err_code :: jsval
  err_status :: jsval

definition new_Error :: js_error where
  "new_Error = \<lparr>err_name = ''Error'', err_message = [], err_code = JUndefined, err_status = JUndefined\<rparr>"

text \<open>
  The engine's exceptions: evaluating an identifier that is bound nowhere, and reading a
  property of undefined or null. The text of the engine's message is not modelled.
\<close>

definition ReferenceError :: js_error where
  "ReferenceError = new_Error\<lparr>err_name := ''ReferenceError''\<rparr>"

definition TypeError :: js_error where
  "TypeError = new_Error\<lparr>err_name := ''TypeError''\<rparr>"

text \<open>\<^verbatim>\<open>Error.prototype.toString\<close>\<close>

definition err_toString :: "js_error \<Rightarrow> string" where
  "err_toString e =
     (if err_name e = [] then err_message e
      else if err_message e = [] then err_name e
      else err_name e @ '': '' @ err_message e)"

text \<open>
  What a call into the flow store does: it throws before returning, or it returns a
  promise that is fulfilled, is rejected, or never settles.
\<close>

datatype 'a store_call = Throws js_error | Fulfils 'a | Rejects js_error | NeverSettles

text \<open>
  The final state of the promise an operation of the module returns, once the store's
  promise has settled and every reaction has run. \<open>Pending\<close>: neither \<^verbatim>\<open>resolve\<close> nor
  \<^verbatim>\<open>reject\<close> is ever called, and the executor did not throw.
\<close>

datatype 'a outcome = Resolved 'a | Rejected js_error | Pending

type_synonym node_config = obj

text \<open>
  The effects of a call, in order: records handed to the log, calls into the store, and
  promises that are rejected with no handler attached.
\<close>

datatype event =
    Audit obj
  | WarnMessage string string
  | WarnStack js_error
  | GetFlows
  | LoadFlows
  | SetFlows "node_config list option" jsval
  | UpdateFlow string obj
  | RemoveFlow string
  | GetCredentials string
  | GetCredentialDefinition string
  | Unhandled js_error

text \<open>The calls that change the store.\<close>

fun store_write :: "event \<Rightarrow> bool" where
  "store_write LoadFlows = True"
| "store_write (SetFlows f t) = True"
| "store_write (UpdateFlow i f) = True"
| "store_write (RemoveFlow i) = True"
| "store_write ev = False"

text \<open>The read of the store's current flows (and so of its revision), and the replace call.\<close>

fun revision_read :: "event \<Rightarrow> bool" where
  "revision_read GetFlows = True"
| "revision_read ev = False"

fun replace_write :: "event \<Rightarrow> bool" where
  "replace_write (SetFlows f t) = True"
| "replace_write ev = False"

fun any_event :: "(event \<Rightarrow> bool) \<Rightarrow> event list \<Rightarrow> bool" where
  "any_event p [] = False"
| "any_event p (ev # evs) = (if p ev then True else any_event p evs)"

text \<open>
  The collaborators of the module. \<^verbatim>\<open>runtime\<close> is the handle bound by \<^verbatim>\<open>init\<close>; its
  \<^verbatim>\<open>nodes\<close> member is the flow store and its \<^verbatim>\<open>log\<close> member the log, and their behaviour
  is a parameter. The module also names a free identifier \<^verbatim>\<open>log\<close> (lines 91, 92, 196,
  201, 207 and 226) which it declares nowhere, so the name resolves in the global scope of
  the host: \<open>global_log\<close> says whether the host binds it there, to a log with the
  interface of \<^verbatim>\<open>runtime.log\<close>. Where it does not, evaluating \<^verbatim>\<open>log\<close> throws a
  ReferenceError. \<open>current_rev\<close> is the \<^verbatim>\<open>rev\<close> of what \<^verbatim>\<open>runtime.nodes.getFlows()\<close>
  returns.
\<close>

record runtime =
  global_log :: bool
  current_rev :: jsval
  nodes_loadFlows :: "jsval store_call"
  nodes_setFlows :: "node_config list option \<Rightarrow> jsval \<Rightarrow> jsval store_call"
  nodes_updateFlow :: "string \<Rightarrow> obj \<Rightarrow> unit store_call"
  nodes_removeFlow :: "string \<Rightarrow> unit store_call"
  nodes_getCredentials :: "string \<Rightarrow> obj option"
  nodes_getCredentialDefinition :: "string \<Rightarrow> (string \<times> obj) list"

section \<open>setFlows\<close>

text \<open>
  \<^verbatim>\<open>opts.flows\<close> is undefined or null (\<open>None\<close>: reading a property of it throws), or a
  value the caller made: data, as \<^verbatim>\<open>JSON.parse\<close> yields it, with \<^verbatim>\<open>Object.prototype\<close>
  behind it or with no prototype at all. The module reads three of its properties:
  \<^verbatim>\<open>hasOwnProperty\<close>, which it calls, \<^verbatim>\<open>rev\<close> and \<^verbatim>\<open>flows\<close>. Each is an own property
  or not; \<^verbatim>\<open>flows\<close> is an array or undefined.
\<close>

record payload =
  payload_prototype :: bool
  payload_hasOwnProperty :: "jsval option"
  payload_rev :: "jsval option"
  payload_flows :: "node_config list option"

text \<open>
  \<^verbatim>\<open>flows.hasOwnProperty\<close> is the function of \<^verbatim>\<open>Object.prototype\<close> when the payload has
  that prototype and no own property of the name. An own property is data and cannot be
  called, and without a prototype the name gives undefined: the call of line 76 then
  throws a TypeError.
\<close>

definition inherits_hasOwnProperty :: "payload \<Rightarrow> bool" where
  "inherits_hasOwnProperty p = (payload_prototype p \<and> payload_hasOwnProperty p = None)"

record setFlows_opts =
  opts_flows :: "payload option"
  opts_deploymentType :: jsval

definition version_mismatch :: js_error where
  "version_mismatch = new_Error\<lparr>err_code := JStr ''version_mismatch'', err_status := JNum 409\<rparr>"

text \<open>
  Lines 88 to 94: the reactions attached to the store's promise. A store call that throws
  leaves the executor, and the Promise constructor rejects with what was thrown. The
  rejection handler evaluates \<^verbatim>\<open>log\<close> first.
\<close>

definition apiPromise_then :: "runtime \<Rightarrow> jsval \<Rightarrow> jsval store_call \<Rightarrow> event list \<Rightarrow> obj outcome \<times> event list" where
  "apiPromise_then rt deploymentType apiPromise tr =
     (case apiPromise of
        Throws e \<Rightarrow> (Rejected e, tr)
      | Fulfils flowId \<Rightarrow> (Resolved [(''rev'', flowId)], tr)
      | Rejects e \<Rightarrow>
          if global_log rt then
            (Rejected e,
             tr @ [WarnMessage (''api.flows.error-'' @
                      (if strict_eq deploymentType (JStr ''reload'') then ''reload'' else ''save''))
                      (err_message e),
                   WarnStack e])
          else (Pending, tr @ [Unhandled ReferenceError])
      | NeverSettles \<Rightarrow> (Pending, tr))"

definition setFlows :: "runtime \<Rightarrow> setFlows_opts \<Rightarrow> obj outcome \<times> event list" where
  "setFlows rt opts =
     (let flows = opts_flows opts;
          deploymentType = js_or (opts_deploymentType opts) (JStr ''full'');
          tr = [Audit [(''event'', JStr ''flows.set''), (''type'', deploymentType)]]
      in if strict_eq deploymentType (JStr ''reload'') then
           apiPromise_then rt deploymentType (nodes_loadFlows rt) (tr @ [LoadFlows])
         else
           (case flows of
              None \<Rightarrow> (Rejected TypeError, tr)
            | Some p \<Rightarrow>
                if \<not> inherits_hasOwnProperty p then (Rejected TypeError, tr)
                else
                  (case payload_rev p of
                     Some r \<Rightarrow>
                       if \<not> strict_eq (current_rev rt) r then
                         (Rejected version_mismatch, tr @ [GetFlows])
                       else
                         apiPromise_then rt deploymentType
                           (nodes_setFlows rt (payload_flows p) deploymentType)
                           (tr @ [GetFlows, SetFlows (payload_flows p) deploymentType])
                   | None \<Rightarrow>
                       apiPromise_then rt deploymentType
                         (nodes_setFlows rt (payload_flows p) deploymentType)
                         (tr @ [SetFlows (payload_flows p) deploymentType]))))"

section \<open>updateFlow and deleteFlow\<close>

record flow_opts =
  opts_id :: string
  opts_flow :: obj

text \<open>
  Lines 154 to 180. The call into the store stands inside \<^verbatim>\<open>try\<close>; the promise it
  returns has a fulfilment and a rejection handler. The \<^verbatim>\<open>catch\<close> block sees only what
  the call throws before it returns.
\<close>

definition updateFlow :: "runtime \<Rightarrow> flow_opts \<Rightarrow> string outcome \<times> event list" where
  "updateFlow rt opts =
     (let flow = opts_flow opts;
          ident = opts_id opts;
          tr = [UpdateFlow ident flow]
      in case nodes_updateFlow rt ident flow of
           Fulfils u \<Rightarrow>
             (Resolved ident, tr @ [Audit [(''event'', JStr ''flow.update''), (''id'', JStr ident)]])
         | Rejects err \<Rightarrow>
             (Rejected (err\<lparr>err_status := JNum 400\<rparr>),
              tr @ [Audit [(''event'', JStr ''flow.update''),
                           (''error'', js_or (err_code err) (JStr ''unexpected_error'')),
                           (''message'', JStr (err_toString err))]])
         | NeverSettles \<Rightarrow> (Pending, tr)
         | Throws err \<Rightarrow>
             if strict_eq (err_code err) (JNum 404) then
               (Rejected (err\<lparr>err_status := JNum 404, err_code := JStr ''not_found''\<rparr>),
                tr @ [Audit [(''event'', JStr ''flow.update''), (''id'', JStr ident),
                             (''error'', JStr ''not_found'')]])
             else
               (Rejected (err\<lparr>err_status := JNum 400\<rparr>),
                tr @ [Audit [(''event'', JStr ''flow.update''),
                             (''error'', js_or (err_code err) (JStr ''unexpected_error'')),
                             (''message'', JStr (err_toString err))]]))"

text \<open>
  Lines 191 to 213. The store's promise has a fulfilment handler only, so its rejection
  reaches no handler. The fulfilment handler and both branches of the \<^verbatim>\<open>catch\<close> block
  start by evaluating the free identifier \<^verbatim>\<open>log\<close>: unbound, the handler throws inside the
  reaction (and \<^verbatim>\<open>resolve\<close> is never called), and the \<^verbatim>\<open>catch\<close> block throws out of the
  executor (and the promise is rejected with the ReferenceError).
\<close>

definition deleteFlow :: "runtime \<Rightarrow> flow_opts \<Rightarrow> unit outcome \<times> event list" where
  "deleteFlow rt opts =
     (let ident = opts_id opts;
          tr = [RemoveFlow ident]
      in case nodes_removeFlow rt ident of
           Fulfils u \<Rightarrow>
             if global_log rt then
               (Resolved (), tr @ [Audit [(''event'', JStr ''flow.remove''), (''id'', JStr ident)]])
             else (Pending, tr @ [Unhandled ReferenceError])
         | Rejects err \<Rightarrow> (Pending, tr @ [Unhandled err])
         | NeverSettles \<Rightarrow> (Pending, tr)
         | Throws err \<Rightarrow>
             if strict_eq (err_code err) (JNum 404) then
               (if global_log rt then
                  (Rejected (err\<lparr>err_status := JNum 404, err_code := JStr ''not_found''\<rparr>),
                   tr @ [Audit [(''event'', JStr ''flow.remove''), (''id'', JStr ident),
                                (''error'', JStr ''not_found'')]])
                else (Rejected ReferenceError, tr))
             else
               (if global_log rt then
                  (Rejected (err\<lparr>err_status := JNum 400\<rparr>),
                   tr @ [Audit [(''event'', JStr ''flow.remove''), (''id'', JStr ident),
                                (''error'', js_or (err_code err) (JStr ''unexpected_error'')),
                                (''message'', JStr (err_toString err))]])
                else (Rejected ReferenceError, tr)))"

section \<open>getNodeCredentials\<close>

record credentials_opts =
  cred_opts_type :: string
  cred_opts_id :: string

text \<open>\<^verbatim>\<open>credentials[cred] != null && credentials[cred] !== ''\<close>\<close>

definition credential_set :: "jsval \<Rightarrow> bool" where
  "credential_set v = (not_nullish v \<and> \<not> strict_eq v (JStr []))"

text \<open>
  Lines 233 to 243: the loop over the properties of the definition, each an object with a
  \<^verbatim>\<open>type\<close> property. Every iteration first calls \<^verbatim>\<open>definition.hasOwnProperty\<close>: where
  the definition declares a field of that name, the name gives the field's object, which
  cannot be called, and the iteration throws a TypeError. Otherwise a password field
  writes \<^verbatim>\<open>'has_' + cred\<close> and continues, and any other field writes its own name.
  \<open>defn\<close> is the definition, \<open>remaining\<close> what the loop has still to visit.
\<close>

fun sendCredentials ::
  "(string \<times> obj) list \<Rightarrow> (string \<times> obj) list \<Rightarrow> obj \<Rightarrow> obj \<Rightarrow> js_error + obj" where
  "sendCredentials defn [] credentials send = Inr send"
| "sendCredentials defn ((cred, d) # remaining) credentials send =
     (if has_own defn ''hasOwnProperty'' then Inl TypeError
      else if is_password (get_prop d ''type'') then
        sendCredentials defn remaining credentials
          (set_prop send (''has_'' @ cred) (JBool (credential_set (get_prop credentials cred))))
      else
        sendCredentials defn remaining credentials
          (set_prop send cred (js_or (get_prop credentials cred) (JStr []))))"


text \<open>
  Lines 224 to 246. The executor starts with \<^verbatim>\<open>log.audit\<close> on the free identifier
  \<^verbatim>\<open>log\<close>: unbound, the executor throws before it reaches the store. The credentials the
  store returns are an object, or nothing (\<open>None\<close>: undefined or null, the falsy case of
  line 228). What the loop throws leaves the executor, and the promise is rejected with
  it.
\<close>

definition getNodeCredentials :: "runtime \<Rightarrow> credentials_opts \<Rightarrow> obj outcome \<times> event list" where
  "getNodeCredentials rt opts =
     (if \<not> global_log rt then (Rejected ReferenceError, [])
      else
        let tr = [Audit [(''event'', JStr ''credentials.get''),
                         (''type'', JStr (cred_opts_type opts)),
                         (''id'', JStr (cred_opts_id opts))],
                  GetCredentials (cred_opts_id opts)]
        in case nodes_getCredentials rt (cred_opts_id opts) of
             None \<Rightarrow> (Resolved [], tr)
           | Some credentials \<Rightarrow>
               (let definition_fields = nodes_getCredentialDefinition rt (cred_opts_type opts)
                in case sendCredentials definition_fields definition_fields credentials [] of
                     Inl err \<Rightarrow> (Rejected err, tr @ [GetCredentialDefinition (cred_opts_type opts)])
                   | Inr send \<Rightarrow> (Resolved send, tr @ [GetCredentialDefinition (cred_opts_type opts)])))"

section \<open>Runtimes and requests to evaluate the operations on\<close>

definition demo_runtime :: runtime where
  "demo_runtime =
     \<lparr>global_log = True,
      current_rev = JStr ''r1'',
      nodes_loadFlows = Fulfils (JStr ''r2''),
      nodes_setFlows = (\<lambda>f t. Fulfils (JStr ''r3'')),
      nodes_updateFlow = (\<lambda>i f. Fulfils ()),
      nodes_removeFlow = (\<lambda>i. Fulfils ()),
      nodes_getCredentials = (\<lambda>i. None),
      nodes_getCredentialDefinition = (\<lambda>t. [])\<rparr>"

text \<open>The store's error for an id it does not know: an Error whose code is the number 404.\<close>

definition unknown_id :: js_error where
  "unknown_id = new_Error\<lparr>err_code := JNum 404\<rparr>"

definition store_failure :: js_error where
  "store_failure = new_Error\<lparr>err_message := ''disk full''\<rparr>"

definition stale_request :: setFlows_opts where
  "stale_request =
     \<lparr>opts_flows = Some \<lparr>payload_prototype = True, payload_hasOwnProperty = None,
                          payload_rev = Some (JStr ''r0''), payload_flows = Some []\<rparr>,
      opts_deploymentType = JUndefined\<rparr>"

definition reload_request :: setFlows_opts where
  "reload_request =
     \<lparr>opts_flows = Some \<lparr>payload_prototype = True, payload_hasOwnProperty = None,
                          payload_rev = Some (JStr ''r0''), payload_flows = Some []\<rparr>,
      opts_deploymentType = JStr ''reload''\<rparr>"

definition overwrite_request :: setFlows_opts where
  "overwrite_request =
     \<lparr>opts_flows = Some \<lparr>payload_prototype = True, payload_hasOwnProperty = None,
                          payload_rev = None, payload_flows = Some []\<rparr>,
      opts_deploymentType = JStr ''nodes''\<rparr>"

text \<open>
  Payloads whose \<^verbatim>\<open>hasOwnProperty\<close> is not the inherited function: the JSON bodies
  \<^verbatim>\<open>{"rev":"r0","flows":[],"hasOwnProperty":1}\<close> and \<^verbatim>\<open>{"flows":[],"hasOwnProperty":1}\<close>,
  and the same two without the shadowing property on an object with no prototype.
\<close>

definition shadowed_stale_request :: setFlows_opts where
  "shadowed_stale_request =
     \<lparr>opts_flows = Some \<lparr>payload_prototype = True, payload_hasOwnProperty = Some (JNum 1),
                          payload_rev = Some (JStr ''r0''), payload_flows = Some []\<rparr>,
      opts_deploymentType = JUndefined\<rparr>"

definition bare_stale_request :: setFlows_opts where
  "bare_stale_request =
     \<lparr>opts_flows = Some \<lparr>payload_prototype = False, payload_hasOwnProperty = None,
                          payload_rev = Some (JStr ''r0''), payload_flows = Some []\<rparr>,
      opts_deploymentType = JUndefined\<rparr>"

definition shadowed_overwrite_request :: setFlows_opts where
  "shadowed_overwrite_request =
     \<lparr>opts_flows = Some \<lparr>payload_prototype = True, payload_hasOwnProperty = Some (JNum 1),
                          payload_rev = None, payload_flows = Some []\<rparr>,
      opts_deploymentType = JStr ''nodes''\<rparr>"

definition bare_overwrite_request :: setFlows_opts where
  "bare_overwrite_request =
     \<lparr>opts_flows = Some \<lparr>payload_prototype = False, payload_hasOwnProperty = None,
                          payload_rev = None, payload_flows = Some []\<rparr>,
      opts_deploymentType = JStr ''nodes''\<rparr>"

definition empty_request :: setFlows_opts where
  "empty_request = \<lparr>opts_flows = None, opts_deploymentType = JUndefined\<rparr>"

definition flow_request :: flow_opts where
  "flow_request = \<lparr>opts_id = ''f1'', opts_flow = [(''label'', JStr ''Flow 1'')]\<rparr>"

text \<open>A host that binds no global \<^verbatim>\<open>log\<close>, over a store whose writes are rejected.\<close>

definition failing_store_runtime :: runtime where
  "failing_store_runtime =
     demo_runtime\<lparr>global_log := False,
                  nodes_loadFlows := Rejects store_failure,
                  nodes_setFlows := (\<lambda>f t. Rejects store_failure)\<rparr>"

text \<open>A store that signals the unknown id by throwing, and one that signals it by rejecting.\<close>

definition throwing_runtime :: runtime where
  "throwing_runtime =
     demo_runtime\<lparr>nodes_updateFlow := (\<lambda>i f. Throws unknown_id),
                  nodes_removeFlow := (\<lambda>i. Throws unknown_id)\<rparr>"

definition rejecting_runtime :: runtime where
  "rejecting_runtime =
     demo_runtime\<lparr>nodes_updateFlow := (\<lambda>i f. Rejects unknown_id),
                  nodes_removeFlow := (\<lambda>i. Rejects unknown_id)\<rparr>"

text \<open>
  The node of the specification's example: a definition with a password and a plain
  field, and stored credentials for both.
\<close>

definition broker_definition :: "(string \<times> obj) list" where
  "broker_definition =
     [(''password'', [(''type'', JStr ''password'')]), (''user'', [(''type'', JStr ''other'')])]"

definition broker_request :: credentials_opts where
  "broker_request = \<lparr>cred_opts_type = ''broker'', cred_opts_id = ''n1''\<rparr>"

definition broker_runtime :: runtime where
  "broker_runtime =
     demo_runtime\<lparr>nodes_getCredentials :=
                    (\<lambda>i. Some [(''password'', JStr ''secret''), (''user'', JStr ''alice'')]),
                  nodes_getCredentialDefinition := (\<lambda>t. broker_definition)\<rparr>"










section \<open>Properties of setFlows\<close>

lemma deploymentType_not_reload:
  "dt \<noteq> JStr ''reload'' \<Longrightarrow> \<not> strict_eq (js_or dt (JStr ''full'')) (JStr ''reload'')"
  by (simp add: strict_eq_def js_or_def)

lemma deploymentType_reload:
  "dt = JStr ''reload'' \<Longrightarrow> js_or dt (JStr ''full'') = JStr ''reload''"
  by (simp add: js_or_def)

text \<open>The reactions to the store's promise add log records and unhandled rejections only.\<close>

lemma apiPromise_then_trace:
  "\<exists>more. snd (apiPromise_then rt dt call tr) = tr @ more
        \<and> \<not> any_event revision_read more \<and> \<not> any_event store_write more"
  by (cases call) (auto simp: apiPromise_then_def)

lemma apiPromise_then_current_rev:
  "apiPromise_then (rt\<lparr>current_rev := c\<rparr>) dt call tr = apiPromise_then rt dt call tr"
  by (cases call) (simp_all add: apiPromise_then_def)

lemma any_event_append:
  "any_event p (xs @ ys) = (any_event p xs \<or> any_event p ys)"
  by (induction xs) auto

text \<open>
  C1, as stated, fails. A payload with a stale rev and an own property \<^verbatim>\<open>hasOwnProperty\<close>,
  or with no prototype, makes the test of line 76 throw: the call is rejected with a
  TypeError, which has no status, and the revision is never read.
\<close>

theorem setFlows_version_conflict_not_reached:
  "opts_deploymentType shadowed_stale_request \<noteq> JStr ''reload''
   \<and> opts_flows shadowed_stale_request =
       Some \<lparr>payload_prototype = True, payload_hasOwnProperty = Some (JNum 1),
             payload_rev = Some (JStr ''r0''), payload_flows = Some []\<rparr>
   \<and> JStr ''r0'' \<noteq> current_rev demo_runtime
   \<and> setFlows demo_runtime shadowed_stale_request =
       (Rejected TypeError, [Audit [(''event'', JStr ''flows.set''), (''type'', JStr ''full'')]])
   \<and> setFlows demo_runtime bare_stale_request =
       (Rejected TypeError, [Audit [(''event'', JStr ''flows.set''), (''type'', JStr ''full'')]])
   \<and> err_status TypeError = JUndefined
   \<and> err_code TypeError = JUndefined"
  by (simp add: setFlows_def Let_def js_or_def strict_eq_def inherits_hasOwnProperty_def
      shadowed_stale_request_def bare_stale_request_def demo_runtime_def TypeError_def
      new_Error_def)

text \<open>
  C1, amended. A call of setFlows whose deployment type is not reload and whose payload
  inherits \<^verbatim>\<open>hasOwnProperty\<close> from \<^verbatim>\<open>Object.prototype\<close> (it has that prototype and no own
  property of the name) and has a rev that differs from the revision the store holds at
  that moment is rejected with the locally made error (code version_mismatch, status
  409). The store is read once for its revision and nothing is written to it.
\<close>

theorem setFlows_version_conflict:
  assumes "opts_deploymentType opts \<noteq> JStr ''reload''"
    and "opts_flows opts = Some p"
    and "inherits_hasOwnProperty p"
    and "payload_rev p = Some r"
    and "r \<noteq> current_rev rt"
  shows "fst (setFlows rt opts) = Rejected version_mismatch
       \<and> err_status version_mismatch = JNum 409
       \<and> err_code version_mismatch = JStr ''version_mismatch''
       \<and> snd (setFlows rt opts) =
           [Audit [(''event'', JStr ''flows.set''),
                   (''type'', js_or (opts_deploymentType opts) (JStr ''full''))],
            GetFlows]
       \<and> \<not> any_event store_write (snd (setFlows rt opts))"
proof -
  from assms(1) have nr: "\<not> strict_eq (js_or (opts_deploymentType opts) (JStr ''full'')) (JStr ''reload'')"
    by (rule deploymentType_not_reload)
  from assms(5) have ne: "\<not> strict_eq (current_rev rt) r"
    by (auto simp: strict_eq_def)
  have run: "setFlows rt opts =
      (Rejected version_mismatch,
       [Audit [(''event'', JStr ''flows.set''),
               (''type'', js_or (opts_deploymentType opts) (JStr ''full''))],
        GetFlows])"
    using nr ne assms(2,3,4) by (simp add: setFlows_def Let_def)
  show ?thesis
    by (simp add: run version_mismatch_def new_Error_def)
qed

theorem setFlows_version_conflict_witness:
  "fst (setFlows demo_runtime stale_request) = Rejected version_mismatch
   \<and> snd (setFlows demo_runtime stale_request) =
       [Audit [(''event'', JStr ''flows.set''), (''type'', JStr ''full'')], GetFlows]
   \<and> \<not> any_event store_write (snd (setFlows demo_runtime stale_request))"
  using setFlows_version_conflict
    [where opts = stale_request and rt = demo_runtime and r = "JStr ''r0''"
       and p = "\<lparr>payload_prototype = True, payload_hasOwnProperty = None,
                 payload_rev = Some (JStr ''r0''), payload_flows = Some []\<rparr>"]
  by (simp add: demo_runtime_def stale_request_def js_or_def inherits_hasOwnProperty_def)

text \<open>
  C2. A call of setFlows with deployment type reload never reads the store's revision and
  never asks the store to replace its flows, whatever payload the request carries: after
  the audit record it asks the store to load its flows again, and the result is the one
  of the same call without any payload.
\<close>

theorem setFlows_reload:
  assumes "opts_deploymentType opts = JStr ''reload''"
  shows "take 2 (snd (setFlows rt opts)) =
           [Audit [(''event'', JStr ''flows.set''), (''type'', JStr ''reload'')], LoadFlows]
       \<and> \<not> any_event revision_read (snd (setFlows rt opts))
       \<and> \<not> any_event replace_write (snd (setFlows rt opts))
       \<and> setFlows rt opts = setFlows rt (opts\<lparr>opts_flows := None\<rparr>)"
proof -
  let ?tr = "[Audit [(''event'', JStr ''flows.set''), (''type'', JStr ''reload'')], LoadFlows]"
  have run: "setFlows rt opts = apiPromise_then rt (JStr ''reload'') (nodes_loadFlows rt) ?tr"
    using assms by (simp add: setFlows_def Let_def js_or_def strict_eq_def)
  have same: "setFlows rt (opts\<lparr>opts_flows := None\<rparr>) =
      apiPromise_then rt (JStr ''reload'') (nodes_loadFlows rt) ?tr"
    using assms by (simp add: setFlows_def Let_def js_or_def strict_eq_def)
  obtain more where more: "snd (setFlows rt opts) = ?tr @ more"
      "\<not> any_event revision_read more" "\<not> any_event store_write more"
    unfolding run using apiPromise_then_trace by blast
  have nw: "\<not> any_event replace_write more"
    using more(3) by (induction more) (auto split: if_splits elim: replace_write.elims)
  have eq: "setFlows rt opts = setFlows rt (opts\<lparr>opts_flows := None\<rparr>)"
    by (simp only: run same)
  from more(1,2) nw have
    "take 2 (snd (setFlows rt opts)) = ?tr
     \<and> \<not> any_event revision_read (snd (setFlows rt opts))
     \<and> \<not> any_event replace_write (snd (setFlows rt opts))"
    by (simp add: any_event_append)
  with eq show ?thesis by blast
qed

theorem setFlows_reload_witness:
  "setFlows demo_runtime reload_request =
     (Resolved [(''rev'', JStr ''r2'')],
      [Audit [(''event'', JStr ''flows.set''), (''type'', JStr ''reload'')], LoadFlows])
   \<and> \<not> any_event revision_read (snd (setFlows demo_runtime reload_request))
   \<and> \<not> any_event replace_write (snd (setFlows demo_runtime reload_request))"
proof -
  have dt: "opts_deploymentType reload_request = JStr ''reload''"
    by (simp add: reload_request_def)
  have run: "setFlows demo_runtime reload_request =
     (Resolved [(''rev'', JStr ''r2'')],
      [Audit [(''event'', JStr ''flows.set''), (''type'', JStr ''reload'')], LoadFlows])"
    by (simp add: setFlows_def Let_def js_or_def strict_eq_def reload_request_def
        demo_runtime_def apiPromise_then_def)
  note th = setFlows_reload [OF dt, of demo_runtime]
  from th have "\<not> any_event revision_read (snd (setFlows demo_runtime reload_request))"
    and "\<not> any_event replace_write (snd (setFlows demo_runtime reload_request))"
    by blast+
  with run show ?thesis by blast
qed

text \<open>
  C5, as stated, fails. A payload with no rev and an own property \<^verbatim>\<open>hasOwnProperty\<close>, or
  with no prototype, makes the test of line 76 throw: the call is rejected with a
  TypeError and the store's set operation is never called.
\<close>

theorem setFlows_no_rev_not_written:
  "opts_deploymentType shadowed_overwrite_request \<noteq> JStr ''reload''
   \<and> opts_flows shadowed_overwrite_request =
       Some \<lparr>payload_prototype = True, payload_hasOwnProperty = Some (JNum 1),
             payload_rev = None, payload_flows = Some []\<rparr>
   \<and> setFlows demo_runtime shadowed_overwrite_request =
       (Rejected TypeError, [Audit [(''event'', JStr ''flows.set''), (''type'', JStr ''nodes'')]])
   \<and> \<not> any_event replace_write (snd (setFlows demo_runtime shadowed_overwrite_request))
   \<and> setFlows demo_runtime bare_overwrite_request =
       (Rejected TypeError, [Audit [(''event'', JStr ''flows.set''), (''type'', JStr ''nodes'')]])
   \<and> \<not> any_event replace_write (snd (setFlows demo_runtime bare_overwrite_request))"
  by (simp add: setFlows_def Let_def js_or_def strict_eq_def inherits_hasOwnProperty_def
      shadowed_overwrite_request_def bare_overwrite_request_def demo_runtime_def)

text \<open>
  C5, amended. A call of setFlows whose deployment type is not reload and whose payload
  inherits \<^verbatim>\<open>hasOwnProperty\<close> from \<^verbatim>\<open>Object.prototype\<close> (it has that prototype and no own
  property of the name) and has no rev never reads the store's revision: after the audit
  record it calls the store's set operation with the payload's flow array and the
  deployment type, its result does not depend on the revision the store holds, and when
  the store's promise is fulfilled with a revision the call resolves with an object whose
  only property is that rev.
\<close>

theorem setFlows_no_rev:
  assumes "opts_deploymentType opts \<noteq> JStr ''reload''"
    and "opts_flows opts = Some p"
    and "inherits_hasOwnProperty p"
    and "payload_rev p = None"
  shows "take 2 (snd (setFlows rt opts)) =
           [Audit [(''event'', JStr ''flows.set''),
                   (''type'', js_or (opts_deploymentType opts) (JStr ''full''))],
            SetFlows (payload_flows p) (js_or (opts_deploymentType opts) (JStr ''full''))]
       \<and> \<not> any_event revision_read (snd (setFlows rt opts))
       \<and> setFlows (rt\<lparr>current_rev := c\<rparr>) opts = setFlows rt opts
       \<and> (nodes_setFlows rt (payload_flows p) (js_or (opts_deploymentType opts) (JStr ''full''))
            = Fulfils newRev \<longrightarrow>
          fst (setFlows rt opts) = Resolved [(''rev'', newRev)])"
proof -
  let ?dt = "js_or (opts_deploymentType opts) (JStr ''full'')"
  let ?tr = "[Audit [(''event'', JStr ''flows.set''), (''type'', ?dt)], SetFlows (payload_flows p) ?dt]"
  from assms(1) have nr: "\<not> strict_eq ?dt (JStr ''reload'')"
    by (rule deploymentType_not_reload)
  have run: "setFlows r' opts = apiPromise_then r' ?dt (nodes_setFlows r' (payload_flows p) ?dt) ?tr" for r'
    using nr assms(2,3,4) by (simp add: setFlows_def Let_def)
  have indep: "setFlows (rt\<lparr>current_rev := c\<rparr>) opts = setFlows rt opts"
    by (simp add: run apiPromise_then_current_rev)
  obtain more where more: "snd (setFlows rt opts) = ?tr @ more" "\<not> any_event revision_read more"
    unfolding run using apiPromise_then_trace by blast
  have ok: "nodes_setFlows rt (payload_flows p) ?dt = Fulfils newRev \<longrightarrow>
      fst (setFlows rt opts) = Resolved [(''rev'', newRev)]"
    by (simp add: run apiPromise_then_def)
  from more have
    "take 2 (snd (setFlows rt opts)) = ?tr \<and> \<not> any_event revision_read (snd (setFlows rt opts))"
    by (simp add: any_event_append)
  with indep ok show ?thesis by blast
qed

theorem setFlows_no_rev_witness:
  "setFlows demo_runtime overwrite_request =
     (Resolved [(''rev'', JStr ''r3'')],
      [Audit [(''event'', JStr ''flows.set''), (''type'', JStr ''nodes'')],
       SetFlows (Some []) (JStr ''nodes'')])
   \<and> setFlows (demo_runtime\<lparr>current_rev := JStr ''r9''\<rparr>) overwrite_request =
       setFlows demo_runtime overwrite_request"
proof -
  have run: "setFlows demo_runtime overwrite_request =
     (Resolved [(''rev'', JStr ''r3'')],
      [Audit [(''event'', JStr ''flows.set''), (''type'', JStr ''nodes'')],
       SetFlows (Some []) (JStr ''nodes'')])"
    by (simp add: setFlows_def Let_def js_or_def strict_eq_def overwrite_request_def
        demo_runtime_def apiPromise_then_def inherits_hasOwnProperty_def)
  let ?p = "\<lparr>payload_prototype = True, payload_hasOwnProperty = None,
             payload_rev = None, payload_flows = Some []\<rparr>"
  have h1: "opts_deploymentType overwrite_request \<noteq> JStr ''reload''"
    and h2: "opts_flows overwrite_request = Some ?p"
    and h3: "inherits_hasOwnProperty ?p"
    and h4: "payload_rev ?p = None"
    by (simp_all add: overwrite_request_def inherits_hasOwnProperty_def)
  note th = setFlows_no_rev [OF h1 h2 h3 h4, where rt = demo_runtime and c = "JStr ''r9''"]
  from th have "setFlows (demo_runtime\<lparr>current_rev := JStr ''r9''\<rparr>) overwrite_request =
       setFlows demo_runtime overwrite_request"
    by blast
  with run show ?thesis by blast
qed

text \<open>
  C10. A call of setFlows whose deployment type is not reload and whose options carry no
  payload is rejected with the TypeError that the test for an own rev property throws.
  The audit record is the only effect: the store is neither read nor written.
\<close>

theorem setFlows_missing_payload:
  assumes "opts_deploymentType opts \<noteq> JStr ''reload''"
    and "opts_flows opts = None"
  shows "setFlows rt opts =
           (Rejected TypeError,
            [Audit [(''event'', JStr ''flows.set''),
                    (''type'', js_or (opts_deploymentType opts) (JStr ''full''))]])
       \<and> \<not> any_event store_write (snd (setFlows rt opts))
       \<and> \<not> any_event revision_read (snd (setFlows rt opts))"
proof -
  from assms(1) have nr: "\<not> strict_eq (js_or (opts_deploymentType opts) (JStr ''full'')) (JStr ''reload'')"
    by (rule deploymentType_not_reload)
  have run: "setFlows rt opts =
           (Rejected TypeError,
            [Audit [(''event'', JStr ''flows.set''),
                    (''type'', js_or (opts_deploymentType opts) (JStr ''full''))]])"
    using nr assms(2) by (simp add: setFlows_def Let_def)
  show ?thesis
    by (simp add: run)
qed

theorem setFlows_missing_payload_witness:
  "setFlows demo_runtime empty_request =
     (Rejected TypeError, [Audit [(''event'', JStr ''flows.set''), (''type'', JStr ''full'')]])
   \<and> \<not> any_event store_write (snd (setFlows demo_runtime empty_request))"
  using setFlows_missing_payload [where opts = empty_request and rt = demo_runtime]
  by (simp add: empty_request_def js_or_def)

text \<open>
  Where the host binds \<^verbatim>\<open>log\<close>, a rejection of the store's promise is logged twice as a
  warning, under the key of the path taken, and passed on as it is.
\<close>

lemma setFlows_rejection_logged:
  assumes "global_log rt"
    and "opts_flows opts = Some p"
    and "inherits_hasOwnProperty p"
    and "payload_rev p = None"
    and "opts_deploymentType opts \<noteq> JStr ''reload''"
    and "nodes_setFlows rt (payload_flows p) (js_or (opts_deploymentType opts) (JStr ''full''))
           = Rejects e"
  shows "setFlows rt opts =
           (Rejected e,
            [Audit [(''event'', JStr ''flows.set''),
                    (''type'', js_or (opts_deploymentType opts) (JStr ''full''))],
             SetFlows (payload_flows p) (js_or (opts_deploymentType opts) (JStr ''full'')),
             WarnMessage ''api.flows.error-save'' (err_message e),
             WarnStack e])"
  using assms deploymentType_not_reload [OF assms(5)]
  by (simp add: setFlows_def Let_def apiPromise_then_def)

lemma setFlows_reload_rejection_logged:
  assumes "global_log rt"
    and "opts_deploymentType opts = JStr ''reload''"
    and "nodes_loadFlows rt = Rejects e"
  shows "setFlows rt opts =
           (Rejected e,
            [Audit [(''event'', JStr ''flows.set''), (''type'', JStr ''reload'')],
             LoadFlows,
             WarnMessage ''api.flows.error-reload'' (err_message e),
             WarnStack e])"
  using assms
  by (simp add: setFlows_def Let_def apiPromise_then_def js_or_def strict_eq_def)

text \<open>
  C7. On a host that binds no global \<^verbatim>\<open>log\<close>, a rejection of the store's promise, on the
  save path and on the reload path alike, produces no warning and does not reach the
  caller: the rejection handler throws a ReferenceError at its first expression, and the
  promise setFlows returned stays pending.
\<close>

theorem setFlows_rejection_lost:
  "setFlows failing_store_runtime overwrite_request =
     (Pending,
      [Audit [(''event'', JStr ''flows.set''), (''type'', JStr ''nodes'')],
       SetFlows (Some []) (JStr ''nodes''),
       Unhandled ReferenceError])
   \<and> setFlows failing_store_runtime reload_request =
     (Pending,
      [Audit [(''event'', JStr ''flows.set''), (''type'', JStr ''reload'')],
       LoadFlows,
       Unhandled ReferenceError])"
  by (simp add: setFlows_def Let_def apiPromise_then_def js_or_def strict_eq_def
      failing_store_runtime_def demo_runtime_def overwrite_request_def reload_request_def
      inherits_hasOwnProperty_def)

section \<open>Properties of updateFlow and deleteFlow\<close>

text \<open>
  C4, as stated, fails. When the store signals the unknown id by rejecting its promise
  with an error of code 404, updateFlow rejects with status 400 and leaves the code the
  number 404. And deleteFlow, on a host that binds no global \<^verbatim>\<open>log\<close>, rejects with a
  ReferenceError when the store throws that error out of the call.
\<close>

theorem updateFlow_rejection_not_normalised:
  "nodes_updateFlow rejecting_runtime (opts_id flow_request) (opts_flow flow_request)
     = Rejects unknown_id
   \<and> err_code unknown_id = JNum 404
   \<and> fst (updateFlow rejecting_runtime flow_request)
       = Rejected (unknown_id\<lparr>err_status := JNum 400\<rparr>)
   \<and> err_status (unknown_id\<lparr>err_status := JNum 400\<rparr>) = JNum 400
   \<and> err_code (unknown_id\<lparr>err_status := JNum 400\<rparr>) = JNum 404
   \<and> nodes_removeFlow (throwing_runtime\<lparr>global_log := False\<rparr>) (opts_id flow_request)
       = Throws unknown_id
   \<and> fst (deleteFlow (throwing_runtime\<lparr>global_log := False\<rparr>) flow_request)
       = Rejected ReferenceError
   \<and> err_status ReferenceError = JUndefined"
  by (simp add: updateFlow_def deleteFlow_def Let_def strict_eq_def rejecting_runtime_def
      throwing_runtime_def demo_runtime_def flow_request_def unknown_id_def new_Error_def
      ReferenceError_def)

text \<open>
  C4, amended. When the store signals the unknown id by throwing an error whose code is
  the number 404 out of the call, updateFlow rejects with that error, its status set to
  404 and its code to the string not_found, and audits the update with the error
  not_found.
\<close>

theorem not_found_when_store_throws:
  "nodes_updateFlow rt (opts_id opts) (opts_flow opts) = Throws e \<and> err_code e = JNum 404 \<longrightarrow>
     updateFlow rt opts =
       (Rejected (e\<lparr>err_status := JNum 404, err_code := JStr ''not_found''\<rparr>),
        [UpdateFlow (opts_id opts) (opts_flow opts),
         Audit [(''event'', JStr ''flow.update''), (''id'', JStr (opts_id opts)),
                (''error'', JStr ''not_found'')]])"
  by (simp add: updateFlow_def Let_def strict_eq_def)

theorem not_found_when_store_throws_witness:
  "nodes_updateFlow throwing_runtime (opts_id flow_request) (opts_flow flow_request)
     = Throws unknown_id
   \<and> err_code unknown_id = JNum 404
   \<and> fst (updateFlow throwing_runtime flow_request)
     = Rejected (unknown_id\<lparr>err_status := JNum 404, err_code := JStr ''not_found''\<rparr>)"
proof -
  have h: "nodes_updateFlow throwing_runtime (opts_id flow_request) (opts_flow flow_request)
             = Throws unknown_id \<and> err_code unknown_id = JNum 404"
    by (simp add: throwing_runtime_def demo_runtime_def unknown_id_def new_Error_def)
  from not_found_when_store_throws
      [where rt = throwing_runtime and opts = flow_request and e = unknown_id] h
  have "updateFlow throwing_runtime flow_request =
       (Rejected (unknown_id\<lparr>err_status := JNum 404, err_code := JStr ''not_found''\<rparr>),
        [UpdateFlow (opts_id flow_request) (opts_flow flow_request),
         Audit [(''event'', JStr ''flow.update''), (''id'', JStr (opts_id flow_request)),
                (''error'', JStr ''not_found'')]])"
    by (rule mp)
  with h show ?thesis by simp
qed

text \<open>
  C8. deleteFlow handles what the store's remove operation throws out of the call: the
  promise is then rejected. When the remove operation returns a promise that is rejected,
  no handler receives the rejection, no audit record is written, and the promise
  deleteFlow returned stays pending.
\<close>

theorem deleteFlow_rejection_unhandled:
  "(nodes_removeFlow rt (opts_id opts) = Rejects e \<longrightarrow>
      deleteFlow rt opts = (Pending, [RemoveFlow (opts_id opts), Unhandled e]))
   \<and> (nodes_removeFlow rt (opts_id opts) = Throws e \<longrightarrow>
      (\<exists>x. fst (deleteFlow rt opts) = Rejected x))"
  by (simp add: deleteFlow_def Let_def)

theorem deleteFlow_rejection_unhandled_witness:
  "deleteFlow rejecting_runtime flow_request = (Pending, [RemoveFlow ''f1'', Unhandled unknown_id])
   \<and> (\<exists>x. fst (deleteFlow throwing_runtime flow_request) = Rejected x)"
proof -
  have h: "nodes_removeFlow rejecting_runtime (opts_id flow_request) = Rejects unknown_id"
    "nodes_removeFlow throwing_runtime (opts_id flow_request) = Throws unknown_id"
    "opts_id flow_request = ''f1''"
    by (simp_all add: rejecting_runtime_def throwing_runtime_def demo_runtime_def flow_request_def)
  have a: "deleteFlow rejecting_runtime flow_request
             = (Pending, [RemoveFlow (opts_id flow_request), Unhandled unknown_id])"
    using deleteFlow_rejection_unhandled
      [where rt = rejecting_runtime and opts = flow_request and e = unknown_id] h(1)
    by blast
  have b: "\<exists>x. fst (deleteFlow throwing_runtime flow_request) = Rejected x"
    using deleteFlow_rejection_unhandled
      [where rt = throwing_runtime and opts = flow_request and e = unknown_id] h(2)
    by blast
  show ?thesis
    using a b h(3) by simp
qed

section \<open>Properties of getNodeCredentials\<close>





lemma sendCredentials_throws:
  "has_own defn ''hasOwnProperty'' \<Longrightarrow> remaining \<noteq> [] \<Longrightarrow>
     sendCredentials defn remaining credentials send = Inl TypeError"
  by (cases remaining) auto





text \<open>
  The result of the loop depends on a field that is only declared as a password through
  \<open>credential_set\<close> alone: two stores of credentials that agree on every other field, and
  on whether this one is set, give the same result.
\<close>

lemma sendCredentials_noninterference:
  assumes "\<And>d. (secret, d) \<in> set remaining \<Longrightarrow> is_password (get_prop d ''type'')"
    and "\<And>k. k \<noteq> secret \<Longrightarrow> get_prop c1 k = get_prop c2 k"
    and "credential_set (get_prop c1 secret) = credential_set (get_prop c2 secret)"
  shows "sendCredentials defn remaining c1 send = sendCredentials defn remaining c2 send"
  using assms
proof (induction remaining arbitrary: send)
  case Nil
  then show ?case by simp
next
  case (Cons fd remaining)
  obtain cred d where fd: "fd = (cred, d)" by (cases fd)
  have IH: "sendCredentials defn remaining c1 s = sendCredentials defn remaining c2 s" for s
    using Cons.prems by (intro Cons.IH) auto
  show ?case
  proof (cases "is_password (get_prop d ''type'')")
    case True
    have "credential_set (get_prop c1 cred) = credential_set (get_prop c2 cred)"
      using Cons.prems(2) [of cred] Cons.prems(3) by (cases "cred = secret") auto
    then show ?thesis using True fd IH by simp
  next
    case False
    then have "cred \<noteq> secret" using Cons.prems(1) [of d] fd by auto
    then have "get_prop c1 cred = get_prop c2 cred" by (rule Cons.prems(2))
    then show ?thesis using False fd IH by simp
  qed
qed



text \<open>
  C3. On a host that binds no global \<^verbatim>\<open>log\<close>, getNodeCredentials for the definition and
  the stored credentials of the example returns no object: the first expression of the
  executor throws a ReferenceError, the promise is rejected with it, and the store is
  never asked for the credentials.
\<close>

theorem getNodeCredentials_broker_rejected:
  "nodes_getCredentials (broker_runtime\<lparr>global_log := False\<rparr>) (cred_opts_id broker_request)
     = Some [(''password'', JStr ''secret''), (''user'', JStr ''alice'')]
   \<and> nodes_getCredentialDefinition (broker_runtime\<lparr>global_log := False\<rparr>) (cred_opts_type broker_request)
     = [(''password'', [(''type'', JStr ''password'')]), (''user'', [(''type'', JStr ''other'')])]
   \<and> getNodeCredentials (broker_runtime\<lparr>global_log := False\<rparr>) broker_request
     = (Rejected ReferenceError, [])"
  by (simp add: getNodeCredentials_def broker_runtime_def demo_runtime_def broker_definition_def)







end
